theory Spec2Isabelle
  imports Main "HOL-Library.Word"
begin

section \<open>The torrc override launcher (src/resources/torrcOverride/override.c)\<close>

text \<open>
  The whole program is
  \<^verbatim>\<open>
  #include "tor-arm-replace-torrc.h"

  int main()
  {
     return execve(TOR_ARM_REPLACE_TORRC, NULL, NULL);
  }
  \<close>
  It is embedded as a function on an explicit process state. What the operating system
  does with the \<open>execve\<close> request is not decided by the program, so the kernel is a
  parameter of the model and every theorem holds for all kernels.
\<close>

subsection \<open>Data\<close>

text \<open>A C \<open>int\<close>; \<open>sint\<close> reads it as a signed number.\<close>

type_synonym c_int = "32 word"

text \<open>
  A \<open>char *const []\<close> argument: \<open>None\<close> is the \<open>NULL\<close> pointer, \<open>Some xs\<close> a
  \<open>NULL\<close>-terminated vector holding the strings \<open>xs\<close>.
\<close>

type_synonym c_vec = "string list option"

text \<open>Error numbers that \<open>execve\<close> may leave in \<open>errno\<close>.\<close>

datatype errno = EACCES | ENOENT | ENOEXEC | ENOTDIR | EPERM | ELOOP | ENOMEM | E_other nat

text \<open>The identity under which the operating system runs a process.\<close>

record creds =
  cr_uid :: nat
  cr_euid :: nat
  cr_gid :: nat
  cr_egid :: nat
  cr_groups :: "nat list"

text \<open>The three arguments of one \<open>execve\<close> call, as the caller passes them.\<close>

record exec_call =
  ec_path :: string
  ec_argv :: c_vec
  ec_envp :: c_vec

text \<open>
  What a freshly loaded program is started with: the pathname it was executed from, the
  argument strings its \<open>main\<close> receives and its environment.
\<close>

record image =
  im_path :: string
  im_argv :: "string list"
  im_envp :: "string list"

text \<open>
  System calls a process can issue. The launcher's source contains one call only; the
  other constructors are there so that the log of a run can be compared with them.
\<close>

datatype syscall =
    Sys_execve exec_call
  | Sys_open string
  | Sys_write nat string
  | Sys_unlink string
  | Sys_socket

fun is_execve :: "syscall \<Rightarrow> bool" where
  "is_execve (Sys_execve c) = True"
| "is_execve (Sys_open f) = False"
| "is_execve (Sys_write fd bs) = False"
| "is_execve (Sys_unlink f) = False"
| "is_execve Sys_socket = False"

text \<open>
  How a caller starts the launcher: the arguments and environment it supplies and the
  identity the operating system gives the new process.
\<close>

record invocation =
  inv_argv :: "string list"
  inv_envp :: "string list"
  inv_creds :: creds

text \<open>
  The state of the running launcher: the argument strings and \<open>environ\<close> the C runtime
  received, the process identity, the \<open>errno\<close> variable (\<open>None\<close> while it is still 0)
  and the log of the system calls issued so far, oldest first.
\<close>

record process =
  p_argv :: "string list"
  p_environ :: "string list"
  p_creds :: creds
  p_errno :: "errno option"
  p_calls :: "syscall list"

text \<open>
  The three ways in which the kernel answers an \<open>execve\<close> request (execve(2)):
  \<^item> \<open>Exec_error e\<close>: the request is refused, control returns to the caller with error
    number \<open>e\<close>;
  \<^item> \<open>Exec_started av\<close>: the new program runs, and \<open>av\<close> are the argument strings the
    kernel has built for it. They need not be the strings of the caller's vector: for an
    empty vector Linux from 5.18 on starts the program with one empty string, and a file
    that begins with \<open>#!\<close> is started as the interpreter named there, with the
    interpreter and the pathname as arguments;
  \<^item> \<open>Exec_killed sg\<close>: the request fails past the point of no return, when the image of
    the caller is already torn down, and the kernel kills the process with signal \<open>sg\<close>.

  The answer may depend on the identity of the process and on the request (and on the
  file system, which is inside the parameter).
\<close>

datatype exec_answer =
    Exec_error errno
  | Exec_started "string list"
  | Exec_killed nat

type_synonym kernel = "creds \<Rightarrow> exec_call \<Rightarrow> exec_answer"

fun is_started :: "exec_answer \<Rightarrow> bool" where
  "is_started (Exec_started av) = True"
| "is_started (Exec_error e) = False"
| "is_started (Exec_killed sg) = False"

subsection \<open>Calls that may not return\<close>

text \<open>
  A call returns a value to the code after it, or the process image has been replaced,
  or the process has been killed. In the last two cases nothing of the calling program
  runs any more.
\<close>

datatype 'a reply = Returned 'a | Replaced image | Killed nat

type_synonym 'a sys = "process \<Rightarrow> 'a reply \<times> process"

definition c_return :: "'a \<Rightarrow> 'a sys" where
  "c_return v p = (Returned v, p)"

definition then_sys :: "'a sys \<Rightarrow> ('a \<Rightarrow> 'b sys) \<Rightarrow> 'b sys" where
  "then_sys m f p =
     (case m p of
        (Returned v, p') \<Rightarrow> f v p'
      | (Replaced img, p') \<Rightarrow> (Replaced img, p')
      | (Killed sg, p') \<Rightarrow> (Killed sg, p'))"

subsection \<open>execve(2)\<close>

text \<open>
  The strings a vector hands over. Linux reads a \<open>NULL\<close> vector as a vector with no
  strings (execve(2): ``On Linux, argv and envp can be specified as NULL. In both cases,
  this has the same effect as specifying the argument as a pointer to a list containing a
  single null pointer.'').
\<close>

fun vec_strings :: "c_vec \<Rightarrow> string list" where
  "vec_strings None = []"
| "vec_strings (Some xs) = xs"

text \<open>
  The call is logged. When the new program is started, its environment is the strings of
  \<open>envp\<close>, its arguments are those the kernel has built, and the call does not return.
  When the request is refused the call returns \<open>-1\<close> with \<open>errno\<close> set. When it fails
  past the point of no return the process is killed.
\<close>

definition execve :: "kernel \<Rightarrow> string \<Rightarrow> c_vec \<Rightarrow> c_vec \<Rightarrow> c_int sys" where
  "execve k pathname argv envp p =
     (let c = \<lparr>ec_path = pathname, ec_argv = argv, ec_envp = envp\<rparr>;
          p' = p\<lparr>p_calls := p_calls p @ [Sys_execve c]\<rparr>
      in case k (p_creds p) c of
           Exec_started av \<Rightarrow>
             (Replaced \<lparr>im_path = pathname, im_argv = av, im_envp = vec_strings envp\<rparr>, p')
         | Exec_error e \<Rightarrow> (Returned (- 1), p'\<lparr>p_errno := Some e\<rparr>)
         | Exec_killed sg \<Rightarrow> (Killed sg, p'))"

subsection \<open>main\<close>

text \<open>
  \<open>TOR_ARM_REPLACE_TORRC\<close> is a macro of the header \<open>tor-arm-replace-torrc.h\<close>, which
  is fixed when the launcher is compiled; it is the first parameter of the model.
  \<open>main\<close> declares no parameters and the body names neither \<open>environ\<close> nor \<open>errno\<close>.
\<close>

definition main :: "string \<Rightarrow> kernel \<Rightarrow> c_int sys" where
  "main TOR_ARM_REPLACE_TORRC k =
     then_sys (execve k TOR_ARM_REPLACE_TORRC None None) (\<lambda>r. c_return r)"

subsection \<open>The launcher as a process\<close>

text \<open>
  The C runtime starts \<open>main\<close> in a fresh process and, when \<open>main\<close> returns \<open>r\<close>,
  calls \<open>exit(r)\<close>; the invoker sees the low eight bits of \<open>r\<close> (exit(3): \<open>status & 0377\<close>).
\<close>

definition start :: "invocation \<Rightarrow> process" where
  "start iv =
     \<lparr>p_argv = inv_argv iv, p_environ = inv_envp iv, p_creds = inv_creds iv,
      p_errno = None, p_calls = []\<rparr>"

definition exit_status :: "c_int \<Rightarrow> 8 word" where
  "exit_status r = ucast r"

text \<open>
  How the process ends up: running the target, terminated by \<open>exit\<close> with a status, or
  killed by a signal.
\<close>

datatype outcome = Running_target image | Terminated "8 word" | Killed_by_signal nat

text \<open>What the invoker takes for a failure: a non-zero exit status, or death by a signal.\<close>

fun ended_in_error :: "outcome \<Rightarrow> bool" where
  "ended_in_error (Running_target img) = False"
| "ended_in_error (Terminated s) = (s \<noteq> 0)"
| "ended_in_error (Killed_by_signal sg) = True"

fun runs_target :: "outcome \<Rightarrow> bool" where
  "runs_target (Running_target img) = True"
| "runs_target (Terminated s) = False"
| "runs_target (Killed_by_signal sg) = False"

text \<open>A run of the launcher: how the process ends up, and the system calls it issued.\<close>

definition launcher :: "string \<Rightarrow> kernel \<Rightarrow> invocation \<Rightarrow> outcome \<times> syscall list" where
  "launcher TOR_ARM_REPLACE_TORRC k iv =
     (case main TOR_ARM_REPLACE_TORRC k (start iv) of
        (Replaced img, p) \<Rightarrow> (Running_target img, p_calls p)
      | (Returned r, p) \<Rightarrow> (Terminated (exit_status r), p_calls p)
      | (Killed sg, p) \<Rightarrow> (Killed_by_signal sg, p_calls p))"

subsection \<open>The body of main as a syntax tree\<close>

text \<open>
  For what is said about the shape of \<open>main\<close>, its body is also kept as a syntax tree of
  a fragment of C that has the statement of the source (\<open>return\<close> of a call of
  \<open>execve\<close>) and, to compare with, sequences, branches and loops. The body
  \<^verbatim>\<open>return execve(TOR_ARM_REPLACE_TORRC, NULL, NULL);\<close> is \<open>main_body\<close>.
\<close>

datatype expr =
    Const c_int
  | Call_execve string c_vec c_vec

datatype stmt =
    Return expr
  | Do expr
  | Seq stmt stmt
  | If_else expr stmt stmt
  | While expr stmt


text \<open>A statement is straight-line code when it has neither a branch nor a loop.\<close>

fun straight_line :: "stmt \<Rightarrow> bool" where
  "straight_line (Return e) = True"
| "straight_line (Do e) = True"
| "straight_line (Seq s1 s2) = (straight_line s1 \<and> straight_line s2)"
| "straight_line (If_else e s1 s2) = False"
| "straight_line (While e s) = False"



text \<open>
  Running a statement. A statement falls through to the next one or leaves the function
  with a value. Each turn of a loop uses up one unit of fuel, and \<open>None\<close> says that the
  fuel did not suffice: a loop that never ends gives \<open>None\<close> for every amount of fuel.
\<close>

fun eval :: "kernel \<Rightarrow> expr \<Rightarrow> c_int sys" where
  "eval k (Const n) = c_return n"
| "eval k (Call_execve pathname argv envp) = execve k pathname argv envp"

datatype flow = Falls_through | Leaves c_int

fun exec :: "nat \<Rightarrow> kernel \<Rightarrow> stmt \<Rightarrow> process \<Rightarrow> (flow reply \<times> process) option" where
  "exec n k (Return e) p = Some (then_sys (eval k e) (\<lambda>r. c_return (Leaves r)) p)"
| "exec n k (Do e) p = Some (then_sys (eval k e) (\<lambda>r. c_return Falls_through) p)"
| "exec n k (Seq s1 s2) p =
     (case exec n k s1 p of
        None \<Rightarrow> None
      | Some (Returned Falls_through, p') \<Rightarrow> exec n k s2 p'
      | Some (Returned (Leaves r), p') \<Rightarrow> Some (Returned (Leaves r), p')
      | Some (Replaced img, p') \<Rightarrow> Some (Replaced img, p')
      | Some (Killed sg, p') \<Rightarrow> Some (Killed sg, p'))"
| "exec n k (If_else e s1 s2) p =
     (case eval k e p of
        (Returned v, p') \<Rightarrow> if v \<noteq> 0 then exec n k s1 p' else exec n k s2 p'
      | (Replaced img, p') \<Rightarrow> Some (Replaced img, p')
      | (Killed sg, p') \<Rightarrow> Some (Killed sg, p'))"
| "exec 0 k (While e s) p = None"
| "exec (Suc n) k (While e s) p =
     (case eval k e p of
        (Returned v, p') \<Rightarrow>
          if v = 0 then Some (Returned Falls_through, p')
          else (case exec n k s p' of
                  None \<Rightarrow> None
                | Some (Returned Falls_through, p'') \<Rightarrow> exec n k (While e s) p''
                | Some (Returned (Leaves r), p'') \<Rightarrow> Some (Returned (Leaves r), p'')
                | Some (Replaced img, p'') \<Rightarrow> Some (Replaced img, p'')
                | Some (Killed sg, p'') \<Rightarrow> Some (Killed sg, p''))
      | (Replaced img, p') \<Rightarrow> Some (Replaced img, p')
      | (Killed sg, p') \<Rightarrow> Some (Killed sg, p'))"


section \<open>Basic facts\<close>

lemma exit_status_minus_one: "exit_status (- 1) = 255"
  by (simp add: exit_status_def unsigned_minus_1_eq_mask mask_eq_exp_minus_1)

lemma main_is_the_call: "main T k p = execve k T None None p"
  by (simp add: main_def then_sys_def c_return_def split: prod.split reply.split)

lemma main_cases:
  "main T k p =
     (case k (p_creds p) \<lparr>ec_path = T, ec_argv = None, ec_envp = None\<rparr> of
        Exec_error e \<Rightarrow>
          (Returned (- 1),
           p\<lparr>p_calls := p_calls p @
                [Sys_execve \<lparr>ec_path = T, ec_argv = None, ec_envp = None\<rparr>],
             p_errno := Some e\<rparr>)
      | Exec_started av \<Rightarrow>
          (Replaced \<lparr>im_path = T, im_argv = av, im_envp = []\<rparr>,
           p\<lparr>p_calls := p_calls p @
                [Sys_execve \<lparr>ec_path = T, ec_argv = None, ec_envp = None\<rparr>]\<rparr>)
      | Exec_killed sg \<Rightarrow>
          (Killed sg,
           p\<lparr>p_calls := p_calls p @
                [Sys_execve \<lparr>ec_path = T, ec_argv = None, ec_envp = None\<rparr>]\<rparr>))"
  by (simp add: main_is_the_call execve_def Let_def split: exec_answer.split)

lemma main_started:
  assumes "k (p_creds p) \<lparr>ec_path = T, ec_argv = None, ec_envp = None\<rparr> = Exec_started av"
  shows "main T k p =
    (Replaced \<lparr>im_path = T, im_argv = av, im_envp = []\<rparr>,
     p\<lparr>p_calls := p_calls p @ [Sys_execve \<lparr>ec_path = T, ec_argv = None, ec_envp = None\<rparr>]\<rparr>)"
  using assms by (simp add: main_cases)

lemma main_refused:
  assumes "k (p_creds p) \<lparr>ec_path = T, ec_argv = None, ec_envp = None\<rparr> = Exec_error e"
  shows "main T k p =
    (Returned (- 1),
     p\<lparr>p_calls := p_calls p @ [Sys_execve \<lparr>ec_path = T, ec_argv = None, ec_envp = None\<rparr>],
       p_errno := Some e\<rparr>)"
  using assms by (simp add: main_cases)

lemma main_killed:
  assumes "k (p_creds p) \<lparr>ec_path = T, ec_argv = None, ec_envp = None\<rparr> = Exec_killed sg"
  shows "main T k p =
    (Killed sg,
     p\<lparr>p_calls := p_calls p @ [Sys_execve \<lparr>ec_path = T, ec_argv = None, ec_envp = None\<rparr>]\<rparr>)"
  using assms by (simp add: main_cases)

lemma start_creds: "p_creds (start iv) = inv_creds iv"
  by (simp add: start_def)

lemma start_calls: "p_calls (start iv) = []"
  by (simp add: start_def)

lemma launcher_cases:
  "launcher T k iv =
     (case k (inv_creds iv) \<lparr>ec_path = T, ec_argv = None, ec_envp = None\<rparr> of
        Exec_error e \<Rightarrow>
          (Terminated 255, [Sys_execve \<lparr>ec_path = T, ec_argv = None, ec_envp = None\<rparr>])
      | Exec_started av \<Rightarrow>
          (Running_target \<lparr>im_path = T, im_argv = av, im_envp = []\<rparr>,
           [Sys_execve \<lparr>ec_path = T, ec_argv = None, ec_envp = None\<rparr>])
      | Exec_killed sg \<Rightarrow>
          (Killed_by_signal sg,
           [Sys_execve \<lparr>ec_path = T, ec_argv = None, ec_envp = None\<rparr>]))"
  by (simp add: launcher_def main_cases start_creds start_calls exit_status_minus_one
      split: exec_answer.split)

lemma launcher_started:
  assumes "k (inv_creds iv) \<lparr>ec_path = T, ec_argv = None, ec_envp = None\<rparr> = Exec_started av"
  shows "launcher T k iv =
    (Running_target \<lparr>im_path = T, im_argv = av, im_envp = []\<rparr>,
     [Sys_execve \<lparr>ec_path = T, ec_argv = None, ec_envp = None\<rparr>])"
  using assms by (simp add: launcher_cases)

lemma launcher_refused:
  assumes "k (inv_creds iv) \<lparr>ec_path = T, ec_argv = None, ec_envp = None\<rparr> = Exec_error e"
  shows "launcher T k iv =
    (Terminated 255, [Sys_execve \<lparr>ec_path = T, ec_argv = None, ec_envp = None\<rparr>])"
  using assms by (simp add: launcher_cases)

lemma launcher_killed:
  assumes "k (inv_creds iv) \<lparr>ec_path = T, ec_argv = None, ec_envp = None\<rparr> = Exec_killed sg"
  shows "launcher T k iv =
    (Killed_by_signal sg, [Sys_execve \<lparr>ec_path = T, ec_argv = None, ec_envp = None\<rparr>])"
  using assms by (simp add: launcher_cases)

lemma launcher_calls:
  "snd (launcher T k iv) = [Sys_execve \<lparr>ec_path = T, ec_argv = None, ec_envp = None\<rparr>]"
  by (simp add: launcher_cases split: exec_answer.split)

lemma launcher_outcome:
  "fst (launcher T k iv) =
     (case k (inv_creds iv) \<lparr>ec_path = T, ec_argv = None, ec_envp = None\<rparr> of
        Exec_error e \<Rightarrow> Terminated 255
      | Exec_started av \<Rightarrow> Running_target \<lparr>im_path = T, im_argv = av, im_envp = []\<rparr>
      | Exec_killed sg \<Rightarrow> Killed_by_signal sg)"
  by (simp add: launcher_cases split: exec_answer.split)

lemma straight_line_needs_no_fuel:
  "straight_line s \<Longrightarrow> \<exists>r. exec n k s p = Some r"
proof (induction s arbitrary: p)
  case (Seq s1 s2)
  then have sl1: "straight_line s1" and sl2: "straight_line s2" by simp_all
  from Seq.IH(1) [OF sl1] obtain r1 p1 where r1: "exec n k s1 p = Some (r1, p1)"
    by fastforce
  show ?case
  proof (cases r1)
    case (Returned f)
    show ?thesis
    proof (cases f)
      case Falls_through
      from Seq.IH(2) [OF sl2] obtain r2 where "exec n k s2 p1 = Some r2" by blast
      with r1 Returned Falls_through show ?thesis by simp
    next
      case (Leaves v)
      with r1 Returned show ?thesis by simp
    qed
  next
    case (Replaced img)
    with r1 show ?thesis by simp
  next
    case (Killed sg)
    with r1 show ?thesis by simp
  qed
qed simp_all

text \<open>
  A launcher that tried the exec again until it succeeds would not end under a kernel
  that refuses: no amount of fuel suffices.
\<close>

lemma retry_loop_never_ends:
  "exec n (\<lambda>cr c. Exec_error e) (While (Const 1) (Do (Call_execve T None None))) p = None"
proof (induction n arbitrary: p)
  case 0
  show ?case by simp
next
  case (Suc n)
  then show ?case by (simp add: then_sys_def c_return_def execve_def)
qed


section \<open>The claims\<close>

text \<open>
  C1. Whatever the invocation, the one thing the launcher does is the exec of the
  compile-time-fixed target, invoked with an argument vector and an environment that hold
  no string: the system calls of a run are exactly
  \<open>execve(TOR_ARM_REPLACE_TORRC, NULL, NULL)\<close>. When the kernel starts the target, the
  image that replaces the launcher is the one of that path, its environment is empty, so
  that no environment string of the launcher reaches it, and its argument strings are the
  ones the kernel builds for an empty vector. The runs in which the exec fails are the
  other two branches.
\<close>

theorem launcher_execs_target_with_nothing:
  "(\<exists>c. snd (launcher T k iv) = [Sys_execve c] \<and> ec_path c = T
        \<and> vec_strings (ec_argv c) = [] \<and> vec_strings (ec_envp c) = [])
   \<and> snd (launcher T k iv) = [Sys_execve \<lparr>ec_path = T, ec_argv = None, ec_envp = None\<rparr>]
   \<and> fst (launcher T k iv) =
       (case k (inv_creds iv) \<lparr>ec_path = T, ec_argv = None, ec_envp = None\<rparr> of
          Exec_error e \<Rightarrow> Terminated 255
        | Exec_started av \<Rightarrow> Running_target \<lparr>im_path = T, im_argv = av, im_envp = []\<rparr>
        | Exec_killed sg \<Rightarrow> Killed_by_signal sg)
   \<and> (case fst (launcher T k iv) of
          Running_target img \<Rightarrow> im_path img = T \<and> im_envp img = []
        | Terminated s \<Rightarrow> True
        | Killed_by_signal sg \<Rightarrow> True)"
proof -
  have calls: "snd (launcher T k iv) =
      [Sys_execve \<lparr>ec_path = T, ec_argv = None, ec_envp = None\<rparr>]"
    by (rule launcher_calls)
  then have passed: "\<exists>c. snd (launcher T k iv) = [Sys_execve c] \<and> ec_path c = T
        \<and> vec_strings (ec_argv c) = [] \<and> vec_strings (ec_envp c) = []"
    by simp
  have env: "case fst (launcher T k iv) of
          Running_target img \<Rightarrow> im_path img = T \<and> im_envp img = []
        | Terminated s \<Rightarrow> True
        | Killed_by_signal sg \<Rightarrow> True"
    by (simp add: launcher_outcome split: exec_answer.split)
  from passed calls env show ?thesis
    by (simp only: launcher_outcome simp_thms)
qed

text \<open>
  C2. If the kernel refuses the exec, for whatever reason \<open>e\<close>, the launcher terminates
  with a non-zero exit status, and the exec it tried is the only system call of the run:
  it is not tried again, no other program is executed in its place and nothing is written.
\<close>

theorem launcher_exec_failure:
  assumes "k (inv_creds iv) \<lparr>ec_path = T, ec_argv = None, ec_envp = None\<rparr> = Exec_error e"
  shows "(\<exists>s. fst (launcher T k iv) = Terminated s \<and> s \<noteq> 0)
    \<and> snd (launcher T k iv) = [Sys_execve \<lparr>ec_path = T, ec_argv = None, ec_envp = None\<rparr>]"
proof -
  from assms have "launcher T k iv =
      (Terminated 255, [Sys_execve \<lparr>ec_path = T, ec_argv = None, ec_envp = None\<rparr>])"
    by (rule launcher_refused)
  then show ?thesis by simp
qed

theorem launcher_exec_failure_witness:
  "(\<exists>s. fst (launcher ''/usr/bin/tor-arm-replace-torrc.py'' (\<lambda>cr c. Exec_error ENOENT)
        \<lparr>inv_argv = [''tor-arm-replace-torrc''], inv_envp = [''PATH=/usr/bin''],
         inv_creds = \<lparr>cr_uid = 1000, cr_euid = 0, cr_gid = 1000, cr_egid = 1000,
                      cr_groups = [1000, 120]\<rparr>\<rparr>) = Terminated s \<and> s \<noteq> 0)
   \<and> snd (launcher ''/usr/bin/tor-arm-replace-torrc.py'' (\<lambda>cr c. Exec_error ENOENT)
        \<lparr>inv_argv = [''tor-arm-replace-torrc''], inv_envp = [''PATH=/usr/bin''],
         inv_creds = \<lparr>cr_uid = 1000, cr_euid = 0, cr_gid = 1000, cr_egid = 1000,
                      cr_groups = [1000, 120]\<rparr>\<rparr>)
     = [Sys_execve \<lparr>ec_path = ''/usr/bin/tor-arm-replace-torrc.py'', ec_argv = None,
                    ec_envp = None\<rparr>]"
  using launcher_exec_failure [where k = "\<lambda>cr c. Exec_error ENOENT"
      and iv = "\<lparr>inv_argv = [''tor-arm-replace-torrc''], inv_envp = [''PATH=/usr/bin''],
        inv_creds = \<lparr>cr_uid = 1000, cr_euid = 0, cr_gid = 1000, cr_egid = 1000,
                     cr_groups = [1000, 120]\<rparr>\<rparr>"
      and T = "''/usr/bin/tor-arm-replace-torrc.py''" and e = ENOENT]
  by simp

text \<open>
  C3. Two invocations that differ only in the command-line arguments behave the same:
  the same outcome and the same system calls. The arguments are not forwarded: whatever
  they are, the argument vector of the exec holds no string.
\<close>

theorem launcher_ignores_arguments:
  "launcher T k (iv\<lparr>inv_argv := args\<rparr>) = launcher T k iv
   \<and> (\<exists>c. snd (launcher T k (iv\<lparr>inv_argv := args\<rparr>)) = [Sys_execve c]
          \<and> ec_argv c = None \<and> vec_strings (ec_argv c) = [])"
proof -
  have same: "launcher T k (iv\<lparr>inv_argv := args\<rparr>) = launcher T k iv"
    by (simp add: launcher_cases)
  have "snd (launcher T k (iv\<lparr>inv_argv := args\<rparr>)) =
      [Sys_execve \<lparr>ec_path = T, ec_argv = None, ec_envp = None\<rparr>]"
    by (rule launcher_calls)
  then have "\<exists>c. snd (launcher T k (iv\<lparr>inv_argv := args\<rparr>)) = [Sys_execve c]
          \<and> ec_argv c = None \<and> vec_strings (ec_argv c) = []"
    by simp
  with same show ?thesis by (simp only: simp_thms)
qed

text \<open>
  C4. The path of the exec is the compile-time constant, for every kernel, every argument
  list, every environment and every identity of the invoker: a run issues one exec, its
  path is \<open>TOR_ARM_REPLACE_TORRC\<close>, and that is the path of the image whenever the target is
  started. No runtime input appears on the right-hand sides.
\<close>

theorem exec_path_is_the_constant:
  "(\<exists>c. snd (launcher T k iv) = [Sys_execve c] \<and> ec_path c = T)
   \<and> (case fst (launcher T k iv) of
          Running_target img \<Rightarrow> im_path img = T
        | Terminated s \<Rightarrow> True
        | Killed_by_signal sg \<Rightarrow> True)"
proof -
  have "snd (launcher T k iv) = [Sys_execve \<lparr>ec_path = T, ec_argv = None, ec_envp = None\<rparr>]"
    by (rule launcher_calls)
  then have calls: "\<exists>c. snd (launcher T k iv) = [Sys_execve c] \<and> ec_path c = T"
    by simp
  have "case fst (launcher T k iv) of
          Running_target img \<Rightarrow> im_path img = T
        | Terminated s \<Rightarrow> True
        | Killed_by_signal sg \<Rightarrow> True"
    by (simp add: launcher_outcome split: exec_answer.split)
  with calls show ?thesis by (simp only: simp_thms)
qed

text \<open>
  C5. Running \<open>main\<close> changes the process state in two places only: the exec is appended
  to the log of system calls, and a refused exec leaves its error number in \<open>errno\<close>.
  Arguments, environment and identity are untouched, and the log of a whole run holds
  nothing but the exec: no file is opened, written or removed and no socket is created,
  also when the exec fails.
\<close>

theorem main_only_effect_is_the_exec:
  "snd (main T k p) =
     p\<lparr>p_errno :=
          (case k (p_creds p) \<lparr>ec_path = T, ec_argv = None, ec_envp = None\<rparr> of
             Exec_error e \<Rightarrow> Some e
           | Exec_started av \<Rightarrow> p_errno p
           | Exec_killed sg \<Rightarrow> p_errno p),
       p_calls := p_calls p @ [Sys_execve \<lparr>ec_path = T, ec_argv = None, ec_envp = None\<rparr>]\<rparr>
   \<and> list_all is_execve (snd (launcher T k iv))
   \<and> length (snd (launcher T k iv)) = 1"
proof -
  have frame: "snd (main T k p) =
     p\<lparr>p_errno :=
          (case k (p_creds p) \<lparr>ec_path = T, ec_argv = None, ec_envp = None\<rparr> of
             Exec_error e \<Rightarrow> Some e
           | Exec_started av \<Rightarrow> p_errno p
           | Exec_killed sg \<Rightarrow> p_errno p),
       p_calls := p_calls p @ [Sys_execve \<lparr>ec_path = T, ec_argv = None, ec_envp = None\<rparr>]\<rparr>"
    by (simp add: main_cases split: exec_answer.split)
  have "list_all is_execve (snd (launcher T k iv))"
    and "length (snd (launcher T k iv)) = 1"
    by (simp_all add: launcher_calls)
  with frame show ?thesis by (simp only: simp_thms)
qed

text \<open>
  C6. From the state in which the launcher runs there are two kinds of transition and no
  other. Either the exec succeeds: the call does not return and the process runs the
  target. Or the exec fails and the process is terminated with an error, which is exit
  status 255 when the kernel refuses the request, and death by a signal when the request
  fails past the point of no return. Which one is taken is the kernel's answer alone, and
  the launcher never ends with status 0. After an exec that did not return no code of the
  launcher has run: the state that \<open>main\<close> leaves is the state at the call with the call
  logged.
\<close>

theorem launcher_two_transitions:
  "fst (launcher T k iv) =
     (case k (inv_creds iv) \<lparr>ec_path = T, ec_argv = None, ec_envp = None\<rparr> of
        Exec_error e \<Rightarrow> Terminated 255
      | Exec_started av \<Rightarrow> Running_target \<lparr>im_path = T, im_argv = av, im_envp = []\<rparr>
      | Exec_killed sg \<Rightarrow> Killed_by_signal sg)
   \<and> runs_target (fst (launcher T k iv)) =
       is_started (k (inv_creds iv) \<lparr>ec_path = T, ec_argv = None, ec_envp = None\<rparr>)
   \<and> ended_in_error (fst (launcher T k iv)) =
       (\<not> is_started (k (inv_creds iv) \<lparr>ec_path = T, ec_argv = None, ec_envp = None\<rparr>))
   \<and> main T k p =
       (case k (p_creds p) \<lparr>ec_path = T, ec_argv = None, ec_envp = None\<rparr> of
          Exec_error e \<Rightarrow>
            (Returned (- 1),
             p\<lparr>p_calls := p_calls p @
                  [Sys_execve \<lparr>ec_path = T, ec_argv = None, ec_envp = None\<rparr>],
               p_errno := Some e\<rparr>)
        | Exec_started av \<Rightarrow>
            (Replaced \<lparr>im_path = T, im_argv = av, im_envp = []\<rparr>,
             p\<lparr>p_calls := p_calls p @
                  [Sys_execve \<lparr>ec_path = T, ec_argv = None, ec_envp = None\<rparr>]\<rparr>)
        | Exec_killed sg \<Rightarrow>
            (Killed sg,
             p\<lparr>p_calls := p_calls p @
                  [Sys_execve \<lparr>ec_path = T, ec_argv = None, ec_envp = None\<rparr>]\<rparr>))"
proof -
  have target: "runs_target (fst (launcher T k iv)) =
       is_started (k (inv_creds iv) \<lparr>ec_path = T, ec_argv = None, ec_envp = None\<rparr>)"
    by (simp add: launcher_outcome split: exec_answer.split)
  have error: "ended_in_error (fst (launcher T k iv)) =
       (\<not> is_started (k (inv_creds iv) \<lparr>ec_path = T, ec_argv = None, ec_envp = None\<rparr>))"
    by (simp add: launcher_outcome split: exec_answer.split)
  have outcome: "fst (launcher T k iv) =
     (case k (inv_creds iv) \<lparr>ec_path = T, ec_argv = None, ec_envp = None\<rparr> of
        Exec_error e \<Rightarrow> Terminated 255
      | Exec_started av \<Rightarrow> Running_target \<lparr>im_path = T, im_argv = av, im_envp = []\<rparr>
      | Exec_killed sg \<Rightarrow> Killed_by_signal sg)"
    by (rule launcher_outcome)
  from outcome target error main_cases [of T k p] show ?thesis
    by blast
qed

theorem launcher_two_transitions_witness:
  "fst (launcher ''/usr/bin/tor-arm-replace-torrc.py'' (\<lambda>cr c. Exec_started [[]])
         \<lparr>inv_argv = [''tor-arm-replace-torrc'', ''-x''], inv_envp = [''HOME=/root''],
          inv_creds = \<lparr>cr_uid = 1000, cr_euid = 0, cr_gid = 1000, cr_egid = 1000,
                       cr_groups = [120]\<rparr>\<rparr>)
     = Running_target \<lparr>im_path = ''/usr/bin/tor-arm-replace-torrc.py'', im_argv = [[]],
                        im_envp = []\<rparr>
   \<and> fst (launcher ''/usr/bin/tor-arm-replace-torrc.py'' (\<lambda>cr c. Exec_error EACCES)
         \<lparr>inv_argv = [''tor-arm-replace-torrc'', ''-x''], inv_envp = [''HOME=/root''],
          inv_creds = \<lparr>cr_uid = 1000, cr_euid = 0, cr_gid = 1000, cr_egid = 1000,
                       cr_groups = [120]\<rparr>\<rparr>)
     = Terminated 255
   \<and> ended_in_error (fst (launcher ''/usr/bin/tor-arm-replace-torrc.py''
         (\<lambda>cr c. Exec_error EACCES)
         \<lparr>inv_argv = [''tor-arm-replace-torrc'', ''-x''], inv_envp = [''HOME=/root''],
          inv_creds = \<lparr>cr_uid = 1000, cr_euid = 0, cr_gid = 1000, cr_egid = 1000,
                       cr_groups = [120]\<rparr>\<rparr>))
   \<and> fst (launcher ''/usr/bin/tor-arm-replace-torrc.py'' (\<lambda>cr c. Exec_killed 11)
         \<lparr>inv_argv = [''tor-arm-replace-torrc'', ''-x''], inv_envp = [''HOME=/root''],
          inv_creds = \<lparr>cr_uid = 1000, cr_euid = 0, cr_gid = 1000, cr_egid = 1000,
                       cr_groups = [120]\<rparr>\<rparr>)
     = Killed_by_signal 11"
  using
    launcher_two_transitions [where T = "''/usr/bin/tor-arm-replace-torrc.py''"
      and k = "\<lambda>cr c. Exec_started [[]]"
      and iv = "\<lparr>inv_argv = [''tor-arm-replace-torrc'', ''-x''], inv_envp = [''HOME=/root''],
        inv_creds = \<lparr>cr_uid = 1000, cr_euid = 0, cr_gid = 1000, cr_egid = 1000,
                     cr_groups = [120]\<rparr>\<rparr>"]
    launcher_two_transitions [where T = "''/usr/bin/tor-arm-replace-torrc.py''"
      and k = "\<lambda>cr c. Exec_error EACCES"
      and iv = "\<lparr>inv_argv = [''tor-arm-replace-torrc'', ''-x''], inv_envp = [''HOME=/root''],
        inv_creds = \<lparr>cr_uid = 1000, cr_euid = 0, cr_gid = 1000, cr_egid = 1000,
                     cr_groups = [120]\<rparr>\<rparr>"]
    launcher_two_transitions [where T = "''/usr/bin/tor-arm-replace-torrc.py''"
      and k = "\<lambda>cr c. Exec_killed 11"
      and iv = "\<lparr>inv_argv = [''tor-arm-replace-torrc'', ''-x''], inv_envp = [''HOME=/root''],
        inv_creds = \<lparr>cr_uid = 1000, cr_euid = 0, cr_gid = 1000, cr_egid = 1000,
                     cr_groups = [120]\<rparr>\<rparr>"]
  by simp

text \<open>
  C7. The launcher makes no decision on the identity of its invoker. Two invocations that
  differ only in uid, gid or groups issue the same system call with the same arguments,
  the exec of the target with \<open>NULL\<close> vectors. Identity can matter through the kernel
  only: whenever the kernel answers that exec alike for the two identities, the two runs
  are equal altogether.
\<close>

theorem launcher_ignores_identity:
  "snd (launcher T k (iv\<lparr>inv_creds := cr\<rparr>)) = snd (launcher T k iv)
   \<and> snd (launcher T k iv) = [Sys_execve \<lparr>ec_path = T, ec_argv = None, ec_envp = None\<rparr>]
   \<and> (k cr \<lparr>ec_path = T, ec_argv = None, ec_envp = None\<rparr>
         = k (inv_creds iv) \<lparr>ec_path = T, ec_argv = None, ec_envp = None\<rparr> \<longrightarrow>
       launcher T k (iv\<lparr>inv_creds := cr\<rparr>) = launcher T k iv)"
proof -
  have calls: "snd (launcher T k (iv\<lparr>inv_creds := cr\<rparr>)) = snd (launcher T k iv)"
    by (simp add: launcher_calls)
  have "launcher T k (iv\<lparr>inv_creds := cr\<rparr>) = launcher T k iv"
    if "k cr \<lparr>ec_path = T, ec_argv = None, ec_envp = None\<rparr>
         = k (inv_creds iv) \<lparr>ec_path = T, ec_argv = None, ec_envp = None\<rparr>"
    using that by (simp add: launcher_cases)
  with calls show ?thesis
    by (simp add: launcher_calls)
qed

theorem launcher_ignores_identity_witness:
  "snd (launcher ''/usr/bin/tor-arm-replace-torrc.py''
          (\<lambda>cr c. if cr_euid cr = 0 then Exec_started [[]] else Exec_error EACCES)
          \<lparr>inv_argv = [], inv_envp = [],
           inv_creds = \<lparr>cr_uid = 1000, cr_euid = 0, cr_gid = 1000, cr_egid = 1000,
                        cr_groups = [120]\<rparr>\<rparr>)
     = snd (launcher ''/usr/bin/tor-arm-replace-torrc.py''
          (\<lambda>cr c. if cr_euid cr = 0 then Exec_started [[]] else Exec_error EACCES)
          \<lparr>inv_argv = [], inv_envp = [],
           inv_creds = \<lparr>cr_uid = 1001, cr_euid = 0, cr_gid = 1001, cr_egid = 1001,
                        cr_groups = []\<rparr>\<rparr>)
   \<and> launcher ''/usr/bin/tor-arm-replace-torrc.py''
          (\<lambda>cr c. if cr_euid cr = 0 then Exec_started [[]] else Exec_error EACCES)
          \<lparr>inv_argv = [], inv_envp = [],
           inv_creds = \<lparr>cr_uid = 1000, cr_euid = 0, cr_gid = 1000, cr_egid = 1000,
                        cr_groups = [120]\<rparr>\<rparr>
     = launcher ''/usr/bin/tor-arm-replace-torrc.py''
          (\<lambda>cr c. if cr_euid cr = 0 then Exec_started [[]] else Exec_error EACCES)
          \<lparr>inv_argv = [], inv_envp = [],
           inv_creds = \<lparr>cr_uid = 1001, cr_euid = 0, cr_gid = 1001, cr_egid = 1001,
                        cr_groups = []\<rparr>\<rparr>"
  using launcher_ignores_identity [where T = "''/usr/bin/tor-arm-replace-torrc.py''"
      and k = "\<lambda>cr c. if cr_euid cr = 0 then Exec_started [[]] else Exec_error EACCES"
      and iv = "\<lparr>inv_argv = [], inv_envp = [],
        inv_creds = \<lparr>cr_uid = 1001, cr_euid = 0, cr_gid = 1001, cr_egid = 1001,
                     cr_groups = []\<rparr>\<rparr>"
      and cr = "\<lparr>cr_uid = 1000, cr_euid = 0, cr_gid = 1000, cr_egid = 1000,
                 cr_groups = [120]\<rparr>"]
  by simp

text \<open>
  C8. When the exec is refused, \<open>execve\<close> returns \<open>-1\<close> and \<open>main\<close> returns that value as
  it is, so the invoker sees exit status 255. The error number \<open>e\<close> is arbitrary: it is
  stored in \<open>errno\<close> and has no part in the value returned or in the status.
\<close>

theorem main_returns_minus_one:
  assumes "k (inv_creds iv) \<lparr>ec_path = T, ec_argv = None, ec_envp = None\<rparr> = Exec_error e"
  shows "fst (execve k T None None (start iv)) = Returned (- 1)
    \<and> fst (main T k (start iv)) = fst (execve k T None None (start iv))
    \<and> fst (launcher T k iv) = Terminated 255
    \<and> p_errno (snd (main T k (start iv))) = Some e"
proof -
  from assms have refused:
    "k (p_creds (start iv)) \<lparr>ec_path = T, ec_argv = None, ec_envp = None\<rparr> = Exec_error e"
    by (simp add: start_creds)
  then have call: "fst (execve k T None None (start iv)) = Returned (- 1)"
    by (simp add: execve_def)
  from refused have ret: "fst (main T k (start iv)) = Returned (- 1)"
    and err: "p_errno (snd (main T k (start iv))) = Some e"
    by (simp_all add: main_refused)
  from assms have "fst (launcher T k iv) = Terminated 255"
    by (simp add: launcher_refused)
  with call ret err show ?thesis by simp
qed

theorem main_returns_minus_one_witness:
  "fst (main ''/usr/bin/tor-arm-replace-torrc.py''
          (\<lambda>cr c. if cr_euid cr = 0 then Exec_error ENOENT else Exec_error EACCES)
          (start \<lparr>inv_argv = [], inv_envp = [],
            inv_creds = \<lparr>cr_uid = 1000, cr_euid = 1000, cr_gid = 1000, cr_egid = 1000,
                         cr_groups = []\<rparr>\<rparr>)) = Returned (- 1)
   \<and> fst (launcher ''/usr/bin/tor-arm-replace-torrc.py''
          (\<lambda>cr c. if cr_euid cr = 0 then Exec_error ENOENT else Exec_error EACCES)
          \<lparr>inv_argv = [], inv_envp = [],
           inv_creds = \<lparr>cr_uid = 1000, cr_euid = 1000, cr_gid = 1000, cr_egid = 1000,
                        cr_groups = []\<rparr>\<rparr>) = Terminated 255
   \<and> p_errno (snd (main ''/usr/bin/tor-arm-replace-torrc.py''
          (\<lambda>cr c. if cr_euid cr = 0 then Exec_error ENOENT else Exec_error EACCES)
          (start \<lparr>inv_argv = [], inv_envp = [],
            inv_creds = \<lparr>cr_uid = 1000, cr_euid = 1000, cr_gid = 1000, cr_egid = 1000,
                         cr_groups = []\<rparr>\<rparr>))) = Some EACCES"
  using main_returns_minus_one [where
      k = "\<lambda>cr c. if cr_euid cr = 0 then Exec_error ENOENT else Exec_error EACCES"
      and iv = "\<lparr>inv_argv = [], inv_envp = [],
        inv_creds = \<lparr>cr_uid = 1000, cr_euid = 1000, cr_gid = 1000, cr_egid = 1000,
                     cr_groups = []\<rparr>\<rparr>"
      and T = "''/usr/bin/tor-arm-replace-torrc.py''" and e = EACCES]
  by simp


end
